theory Spec2Isabelle
  imports Complex_Main
begin

section \<open>Python values, errors and string primitives\<close>

text \<open>
  The module \<^verbatim>\<open>taskindicator/database.py\<close> is Python 2.  Byte strings and
  unicode strings are both carried as \<^typ>\<open>string\<close>; the two explicit codec calls
  of the source (\<^verbatim>\<open>decode("utf-8")\<close>, \<^verbatim>\<open>encode("utf-8")\<close>) are parameters of
  the model.  A Python float is carried as the real number it denotes.  Every
  \<^verbatim>\<open>raise\<close> of the source, and every exception of a library call the source makes,
  is a value of \<open>error\<close>.
\<close>

datatype error =
    RuntimeError string
  | ValueError string
  | TypeError
  | KeyError
  | IOError
  | OSError
  | NameError
  | UnicodeDecodeError
  | AttributeError
  | ExternalToolError

datatype pyval = PNone | PStr string | PList "string list" | PFloat real

type_synonym task = "string \<rightharpoonup> pyval"

definition isspace :: "char \<Rightarrow> bool" where
  "isspace c = (c \<in> {CHR '' '', CHR 0x09, CHR 0x0A, CHR 0x0B, CHR 0x0C, CHR 0x0D})"

definition lstrip :: "string \<Rightarrow> string" where
  "lstrip s = dropWhile isspace s"

definition rstrip :: "string \<Rightarrow> string" where
  "rstrip s = rev (dropWhile isspace (rev s))"

definition strip :: "string \<Rightarrow> string" where
  "strip s = lstrip (rstrip s)"

definition startswith :: "string \<Rightarrow> string \<Rightarrow> bool" where
  "startswith s p = (take (length p) s = p)"

definition endswith :: "string \<Rightarrow> string \<Rightarrow> bool" where
  "endswith s p = (length p \<le> length s \<and> drop (length s - length p) s = p)"

text \<open>\<^verbatim>\<open>s.split(c)\<close> for a one-character separator: empty pieces are kept, and the
  result is never the empty list.\<close>

fun split_on :: "char \<Rightarrow> string \<Rightarrow> string list" where
  "split_on c [] = [[]]"
| "split_on c (x # xs) =
     (if x = c then [] # split_on c xs
      else (case split_on c xs of
              [] \<Rightarrow> [[x]]
            | w # ws \<Rightarrow> (x # w) # ws))"

text \<open>\<^verbatim>\<open>s.split(c, 1)\<close> on a string that contains \<open>c\<close>: the part before the first
  \<open>c\<close> and the part after it.\<close>

definition split_first :: "char \<Rightarrow> string \<Rightarrow> string \<times> string" where
  "split_first c s = (takeWhile (\<lambda>x. x \<noteq> c) s, drop 1 (dropWhile (\<lambda>x. x \<noteq> c) s))"

text \<open>\<^verbatim>\<open>v.replace("\/", "/")\<close>: the two-character sequence backslash, slash becomes
  a slash, scanning from the left without overlap.\<close>

fun replace_escaped_slash :: "string \<Rightarrow> string" where
  "replace_escaped_slash (a # b # xs) =
     (if a = CHR 0x5C \<and> b = CHR ''/'' then CHR ''/'' # replace_escaped_slash xs
      else a # replace_escaped_slash (b # xs))"
| "replace_escaped_slash xs = xs"

text \<open>Truth value of \<^verbatim>\<open>self.get(key)\<close>: a missing key gives \<^verbatim>\<open>None\<close>.\<close>

fun truthy :: "pyval option \<Rightarrow> bool" where
  "truthy None = False"
| "truthy (Some PNone) = False"
| "truthy (Some (PStr s)) = (s \<noteq> [])"
| "truthy (Some (PList l)) = (l \<noteq> [])"
| "truthy (Some (PFloat f)) = (f \<noteq> 0)"

section \<open>Task\<close>

text \<open>\<^verbatim>\<open>Task.__getitem__\<close>: \<^verbatim>\<open>self.get("tags", [])\<close> for the key \<^verbatim>\<open>tags\<close>,
  \<^verbatim>\<open>dict.get(key, None)\<close> for every other key.\<close>

definition getitem :: "task \<Rightarrow> string \<Rightarrow> pyval" where
  "getitem t key =
     (if key = ''tags'' then (case t ''tags'' of None \<Rightarrow> PList [] | Some v \<Rightarrow> v)
      else (case t key of None \<Rightarrow> PNone | Some v \<Rightarrow> v))"

definition is_active :: "task \<Rightarrow> bool" where
  "is_active t = (if \<not> truthy (t ''start'') then False else True)"

text \<open>Decimal digits, as \<^verbatim>\<open>%u\<close> prints them, and their value read back.\<close>

definition digit_char :: "nat \<Rightarrow> char" where
  "digit_char d = char_of (48 + d)"

fun decimal :: "nat \<Rightarrow> string" where
  "decimal n = (if n < 10 then [digit_char n] else decimal (n div 10) @ [digit_char (n mod 10)])"

definition is_digit :: "char \<Rightarrow> bool" where
  "is_digit c = (48 \<le> (of_char c :: nat) \<and> (of_char c :: nat) \<le> 57)"

definition digits_value :: "string \<Rightarrow> nat" where
  "digits_value s = foldl (\<lambda>acc c. 10 * acc + (of_char c - 48)) 0 s"

text \<open>\<^verbatim>\<open>int(x)\<close> on a field value.  On text: surrounding whitespace is dropped, one
  sign is allowed, the rest must be a non-empty run of decimal digits.  On a float:
  truncation towards zero.\<close>

definition py_trunc :: "real \<Rightarrow> int" where
  "py_trunc x = (if 0 \<le> x then \<lfloor>x\<rfloor> else \<lceil>x\<rceil>)"

definition int_of_text :: "string \<Rightarrow> error + int" where
  "int_of_text s =
     (let t = strip s;
          neg = (t \<noteq> [] \<and> hd t = CHR ''-'');
          ds = (if t \<noteq> [] \<and> (hd t = CHR ''-'' \<or> hd t = CHR ''+'') then tl t else t)
      in if ds \<noteq> [] \<and> list_all is_digit ds
         then Inr (if neg then - int (digits_value ds) else int (digits_value ds))
         else Inl (ValueError ''invalid literal for int() with base 10''))"

fun py_int :: "pyval \<Rightarrow> error + int" where
  "py_int PNone = Inl TypeError"
| "py_int (PStr s) = int_of_text s"
| "py_int (PList l) = Inl TypeError"
| "py_int (PFloat f) = Inr (py_trunc f)"

text \<open>\<^verbatim>\<open>Task.get_current_runtime\<close>; \<open>now\<close> is what \<^verbatim>\<open>time.time()\<close> returns at
  the call.\<close>

definition get_current_runtime :: "task \<Rightarrow> real \<Rightarrow> error + int" where
  "get_current_runtime t now =
     (if \<not> truthy (t ''start'') then Inr 0
      else (case py_int (getitem t ''start'') of
              Inl e \<Rightarrow> Inl e
            | Inr start \<Rightarrow> Inr (py_trunc (now - of_int start))))"

text \<open>\<^verbatim>\<open>"%u:%02u:%02u" % (hours, minutes, seconds)\<close>.  The three numbers are
  remainders modulo 60, hence not negative.\<close>

definition fmt_u :: "int \<Rightarrow> string" where
  "fmt_u n = decimal (nat n)"

definition fmt_02u :: "int \<Rightarrow> string" where
  "fmt_02u n = replicate (2 - length (decimal (nat n))) CHR ''0'' @ decimal (nat n)"

definition format_duration :: "int \<Rightarrow> string" where
  "format_duration duration =
     (let seconds = duration mod 60;
          minutes = (duration div 60) mod 60;
          hours = (duration div 3600) mod 60
      in fmt_u hours @ '':'' @ fmt_02u minutes @ '':'' @ fmt_02u seconds)"

definition format_current_runtime :: "task \<Rightarrow> real \<Rightarrow> error + string" where
  "format_current_runtime t now =
     (case get_current_runtime t now of
        Inl e \<Rightarrow> Inl e
      | Inr duration \<Rightarrow> Inr (format_duration duration))"

section \<open>The outside world\<close>

text \<open>
  The file system is a map from path names to nodes; a path has no owner, no
  permissions and no parent.  The world also carries the clock (the time stamp a
  write leaves on a file) and the requests issued so far to the external
  \<^verbatim>\<open>task\<close> tool.
\<close>

datatype node = RegularFile string real | Directory real

fun node_mtime :: "node \<Rightarrow> real" where
  "node_mtime (RegularFile c m) = m"
| "node_mtime (Directory m) = m"

record world =
  fs :: "string \<rightharpoonup> node"
  clock :: real
  issued :: "string list list"

datatype json =
    JNull
  | JBool bool
  | JInt int
  | JFloat real
  | JStr string
  | JArr "json list"
  | JObj "(string \<times> json) list"

text \<open>
  What the module takes from outside itself: the external tool behind
  \<^verbatim>\<open>util.run_command\<close> (its output on a request, given the requests made before;
  \<open>None\<close> when the run fails), and the library routines \<^verbatim>\<open>shlex.split\<close>,
  the UTF-8 codec, \<^verbatim>\<open>json.loads\<close> and \<^verbatim>\<open>float\<close> on text.
\<close>

record env =
  tool :: "string list list \<Rightarrow> string list \<Rightarrow> string option"
  shlex_split :: "string \<Rightarrow> error + string list"
  utf8_decode :: "string \<Rightarrow> string option"
  utf8_encode :: "string \<Rightarrow> string"
  json_loads :: "string \<Rightarrow> json option"
  float_of_text :: "string \<Rightarrow> real option"

text \<open>
  Modelled from the spec: \<^verbatim>\<open>util.run_command\<close>, of \<^verbatim>\<open>taskindicator/util.py\<close>,
  is not among the sources.  The command runner accepts an ordered sequence of
  command-line arguments, executes the external tool and returns its captured
  standard output as text; a failure propagates to the caller.
\<close>

definition run_command :: "env \<Rightarrow> string list \<Rightarrow> world \<Rightarrow> (error + string) \<times> world" where
  "run_command env command w =
     (case tool env (issued w) command of
        None \<Rightarrow> (Inl ExternalToolError, w\<lparr>issued := issued w @ [command]\<rparr>)
      | Some out \<Rightarrow> (Inr out, w\<lparr>issued := issued w @ [command]\<rparr>))"

definition os_path_exists :: "world \<Rightarrow> string \<Rightarrow> bool" where
  "os_path_exists w p = (fs w p \<noteq> None)"

text \<open>\<^verbatim>\<open>os.path.join\<close> of two components (POSIX).\<close>

definition os_path_join :: "string \<Rightarrow> string \<Rightarrow> string" where
  "os_path_join a b =
     (if startswith b ''/'' then b
      else if a = [] \<or> endswith a ''/'' then a @ b
      else a @ ''/'' @ b)"

definition os_makedirs :: "world \<Rightarrow> string \<Rightarrow> world" where
  "os_makedirs w p = w\<lparr>fs := (fs w)(p \<mapsto> Directory (clock w))\<rparr>"

definition read_file :: "world \<Rightarrow> string \<Rightarrow> error + string" where
  "read_file w p =
     (case fs w p of
        Some (RegularFile c m) \<Rightarrow> Inr c
      | _ \<Rightarrow> Inl IOError)"

definition write_file :: "world \<Rightarrow> string \<Rightarrow> string \<Rightarrow> error + world" where
  "write_file w p c =
     (case fs w p of
        Some (Directory m) \<Rightarrow> Inl IOError
      | _ \<Rightarrow> Inr (w\<lparr>fs := (fs w)(p \<mapsto> RegularFile c (clock w))\<rparr>))"

definition os_unlink :: "world \<Rightarrow> string \<Rightarrow> error + world" where
  "os_unlink w p =
     (case fs w p of
        Some (RegularFile c m) \<Rightarrow> Inr (w\<lparr>fs := (fs w)(p := None)\<rparr>)
      | _ \<Rightarrow> Inl OSError)"

text \<open>\<^verbatim>\<open>get_database_folder\<close>: the value of the first \<^verbatim>\<open>data.location=\<close> line of
  \<^verbatim>\<open>task _show\<close>.  Without such a line the source evaluates the name
  \<^verbatim>\<open>RuntimeException\<close>, which Python does not define: a \<^verbatim>\<open>NameError\<close>.\<close>

definition get_database_folder :: "env \<Rightarrow> world \<Rightarrow> (error + string) \<times> world" where
  "get_database_folder env w =
     (case run_command env [''task'', ''_show''] w of
        (Inl e, w') \<Rightarrow> (Inl e, w')
      | (Inr out, w') \<Rightarrow>
          (case find (\<lambda>line. startswith line ''data.location='') (split_on CHR 0x0A out) of
             Some line \<Rightarrow> (Inr (snd (split_first CHR ''='' line)), w')
           | None \<Rightarrow> (Inl NameError, w')))"

section \<open>Notes\<close>

text \<open>The argument of \<^verbatim>\<open>set_note\<close>: a \<^verbatim>\<open>str\<close>, a \<^verbatim>\<open>unicode\<close>, or anything
  else.\<close>

datatype note_arg = NoteStr string | NoteUnicode string | NoteOther

text \<open>\<^verbatim>\<open>note == self.get_note()\<close>.  \<^verbatim>\<open>get_note\<close> returns \<^verbatim>\<open>None\<close> or a
  \<^verbatim>\<open>unicode\<close>; Python 2 compares a \<^verbatim>\<open>str\<close> with a \<^verbatim>\<open>unicode\<close> after decoding
  the \<^verbatim>\<open>str\<close> as ASCII, and finds them unequal when that fails.\<close>

fun note_equals :: "note_arg \<Rightarrow> string option \<Rightarrow> bool" where
  "note_equals (NoteUnicode u) (Some cur) = (u = cur)"
| "note_equals (NoteStr s) (Some cur) = (list_all (\<lambda>c. (of_char c :: nat) < 128) s \<and> s = cur)"
| "note_equals note cur = False"

definition get_note :: "env \<Rightarrow> task \<Rightarrow> world \<Rightarrow> (error + string option) \<times> world" where
  "get_note env t w =
     (if \<not> truthy (t ''uuid'') then (Inr None, w)
      else (case get_database_folder env w of
              (Inl e, w') \<Rightarrow> (Inl e, w')
            | (Inr folder, w') \<Rightarrow>
                (case getitem t ''uuid'' of
                   PStr uuid \<Rightarrow>
                     (let fn = os_path_join (os_path_join folder ''notes'') uuid
                      in if os_path_exists w' fn
                         then (case read_file w' fn of
                                 Inl e \<Rightarrow> (Inl e, w')
                               | Inr c \<Rightarrow>
                                   (case utf8_decode env c of
                                      None \<Rightarrow> (Inl UnicodeDecodeError, w')
                                    | Some u \<Rightarrow> (Inr (Some u), w')))
                         else (Inr (Some []), w'))
                 | _ \<Rightarrow> (Inl AttributeError, w'))))"

text \<open>\<^verbatim>\<open>if isinstance(note, unicode): note = note.encode("utf-8")\<close>.\<close>

fun note_bytes :: "env \<Rightarrow> note_arg \<Rightarrow> string" where
  "note_bytes env (NoteUnicode u) = utf8_encode env u"
| "note_bytes env (NoteStr s) = s"
| "note_bytes env NoteOther = []"

definition set_note :: "env \<Rightarrow> task \<Rightarrow> note_arg \<Rightarrow> world \<Rightarrow> (error + unit) \<times> world" where
  "set_note env t note w =
     (if \<not> truthy (t ''uuid'')
      then (Inl (RuntimeError ''Cannot set a note for an unsaved task (no uuid).''), w)
      else if note = NoteOther then (Inl (ValueError ''Note must be a text string.''), w)
      else (case get_note env t w of
              (Inl e, w1) \<Rightarrow> (Inl e, w1)
            | (Inr cur, w1) \<Rightarrow>
                if note_equals note cur then (Inr (), w1)
                else
                  (let bytes = note_bytes env note
                   in case get_database_folder env w1 of
                        (Inl e, w2) \<Rightarrow> (Inl e, w2)
                      | (Inr dbf, w2) \<Rightarrow>
                          (let folder = os_path_join dbf ''notes'';
                               w3 = (if \<not> os_path_exists w2 folder
                                     then os_makedirs w2 folder else w2)
                           in case getitem t ''uuid'' of
                                PStr uuid \<Rightarrow>
                                  (let fn = os_path_join folder uuid
                                   in if strip bytes \<noteq> []
                                      then (case write_file w3 fn bytes of
                                              Inl e \<Rightarrow> (Inl e, w3)
                                            | Inr w4 \<Rightarrow> (Inr (), w4))
                                      else if os_path_exists w3 fn
                                      then (case os_unlink w3 fn of
                                              Inl e \<Rightarrow> (Inl e, w3)
                                            | Inr w4 \<Rightarrow> (Inr (), w4))
                                      else (Inr (), w3))
                              | _ \<Rightarrow> (Inl AttributeError, w3)))))"

section \<open>Tasks: the parser of the database files\<close>

text \<open>The body of the inner loop of \<^verbatim>\<open>Tasks.load_data\<close>: the tokens of one line,
  stored one by one into the \<^verbatim>\<open>Task\<close> built for that line.\<close>

fun parse_tokens :: "env \<Rightarrow> string list \<Rightarrow> task \<Rightarrow> error + task" where
  "parse_tokens env [] t = Inr t"
| "parse_tokens env (kw # kws) t =
     (if CHR '':'' \<notin> set kw then parse_tokens env kws t
      else (let k = fst (split_first CHR '':'' kw);
                v = replace_escaped_slash (snd (split_first CHR '':'' kw))
            in case utf8_decode env v of
                 None \<Rightarrow> Inl UnicodeDecodeError
               | Some u \<Rightarrow>
                   parse_tokens env kws
                     (t(k \<mapsto> (if k = ''tags'' then PList (split_on CHR '','' u) else PStr u)))))"

text \<open>\<^verbatim>\<open>line[1:-1]\<close>.\<close>

definition strip_brackets :: "string \<Rightarrow> string" where
  "strip_brackets line = butlast (drop 1 line)"

text \<open>\<^verbatim>\<open>not line.startswith("[") or not line.endswith("]")\<close>.\<close>

definition malformed :: "string \<Rightarrow> bool" where
  "malformed line = (\<not> startswith line ''['' \<or> \<not> endswith line '']'')"

definition parse_line :: "env \<Rightarrow> string \<Rightarrow> string \<Rightarrow> error + task" where
  "parse_line env database line =
     (if malformed line
      then Inl (ValueError (''Unsupported file format in '' @ database))
      else (case shlex_split env (strip_brackets line) of
              Inl e \<Rightarrow> Inl e
            | Inr kws \<Rightarrow> parse_tokens env kws Map.empty))"

text \<open>The outer loop of \<^verbatim>\<open>Tasks.load_data\<close>, over the lines of the file.\<close>

fun parse_lines :: "env \<Rightarrow> string \<Rightarrow> string list \<Rightarrow> error + task list" where
  "parse_lines env database [] = Inr []"
| "parse_lines env database (line # rest) =
     (case parse_line env database line of
        Inl e \<Rightarrow> Inl e
      | Inr t \<Rightarrow>
          (case parse_lines env database rest of
             Inl e \<Rightarrow> Inl e
           | Inr ts \<Rightarrow> Inr (t # ts)))"

section \<open>Tasks: merging the export\<close>

text \<open>
  The keys of the dictionary \<^verbatim>\<open>_tasks\<close>.  Python looks a key up by value, so
  \<^verbatim>\<open>1\<close>, \<^verbatim>\<open>1.0\<close> and \<^verbatim>\<open>True\<close> are one key; a list or a dictionary is unhashable
  and raises \<^verbatim>\<open>TypeError\<close>.
\<close>

datatype dict_key = KNone | KNum real | KText string

fun key_of_json :: "json \<Rightarrow> error + dict_key" where
  "key_of_json JNull = Inr KNone"
| "key_of_json (JBool b) = Inr (KNum (if b then 1 else 0))"
| "key_of_json (JInt i) = Inr (KNum (of_int i))"
| "key_of_json (JFloat r) = Inr (KNum r)"
| "key_of_json (JStr s) = Inr (KText s)"
| "key_of_json (JArr a) = Inl TypeError"
| "key_of_json (JObj kvs) = Inl TypeError"

fun key_of_pyval :: "pyval \<Rightarrow> error + dict_key" where
  "key_of_pyval PNone = Inr KNone"
| "key_of_pyval (PStr s) = Inr (KText s)"
| "key_of_pyval (PList l) = Inl TypeError"
| "key_of_pyval (PFloat r) = Inr (KNum r)"

text \<open>\<^verbatim>\<open>for em in json.loads(out)\<close>: the elements of an array, the keys of an
  object, the characters of a string; anything else is not iterable.\<close>

fun json_iter :: "json \<Rightarrow> error + json list" where
  "json_iter (JArr es) = Inr es"
| "json_iter (JObj kvs) = Inr (map (\<lambda>kv. JStr (fst kv)) kvs)"
| "json_iter (JStr s) = Inr (map (\<lambda>c. JStr [c]) s)"
| "json_iter j = Inl TypeError"

text \<open>\<^verbatim>\<open>em["uuid"]\<close>: only an object can be subscripted by a string.\<close>

fun json_subscript :: "json \<Rightarrow> string \<Rightarrow> error + json" where
  "json_subscript (JObj kvs) k =
     (case map_of kvs k of None \<Rightarrow> Inl KeyError | Some v \<Rightarrow> Inr v)"
| "json_subscript j k = Inl TypeError"

text \<open>\<^verbatim>\<open>_tasks[em["uuid"]] = em\<close>, for each element of the export in turn.\<close>

fun build_lookup :: "json list \<Rightarrow> (dict_key \<rightharpoonup> json) \<Rightarrow> error + (dict_key \<rightharpoonup> json)" where
  "build_lookup [] m = Inr m"
| "build_lookup (em # ems) m =
     (case json_subscript em ''uuid'' of
        Inl e \<Rightarrow> Inl e
      | Inr u \<Rightarrow>
          (case key_of_json u of
             Inl e \<Rightarrow> Inl e
           | Inr k \<Rightarrow> build_lookup ems (m(k \<mapsto> em))))"

text \<open>\<^verbatim>\<open>float(x)\<close> on a value of the export.\<close>

fun py_float :: "env \<Rightarrow> json \<Rightarrow> error + real" where
  "py_float env JNull = Inl TypeError"
| "py_float env (JBool b) = Inr (if b then 1 else 0)"
| "py_float env (JInt i) = Inr (of_int i)"
| "py_float env (JFloat r) = Inr r"
| "py_float env (JStr s) =
     (case float_of_text env s of
        None \<Rightarrow> Inl (ValueError ''could not convert string to float'')
      | Some r \<Rightarrow> Inr r)"
| "py_float env (JArr a) = Inl TypeError"
| "py_float env (JObj kvs) = Inl TypeError"

text \<open>\<^verbatim>\<open>"urgency" in _task\<close>, then \<^verbatim>\<open>_task["urgency"]\<close>.\<close>

fun json_member :: "json \<Rightarrow> string \<Rightarrow> error + json option" where
  "json_member (JObj kvs) k = Inr (map_of kvs k)"
| "json_member j k = Inl TypeError"

text \<open>One turn of the second loop of \<^verbatim>\<open>merge_exported\<close>.\<close>

definition merge_task :: "env \<Rightarrow> (dict_key \<rightharpoonup> json) \<Rightarrow> task \<Rightarrow> error + task" where
  "merge_task env lookup t =
     (case key_of_pyval (getitem t ''uuid'') of
        Inl e \<Rightarrow> Inl e
      | Inr k \<Rightarrow>
          (case lookup k of
             None \<Rightarrow> Inr t
           | Some em \<Rightarrow>
               (case json_member em ''urgency'' of
                  Inl e \<Rightarrow> Inl e
                | Inr None \<Rightarrow> Inr t
                | Inr (Some u) \<Rightarrow>
                    (case py_float env u of
                       Inl e \<Rightarrow> Inl e
                     | Inr f \<Rightarrow> Inr (t(''urgency'' \<mapsto> PFloat f))))))"

fun merge_loop :: "env \<Rightarrow> (dict_key \<rightharpoonup> json) \<Rightarrow> task list \<Rightarrow> error + task list" where
  "merge_loop env lookup [] = Inr []"
| "merge_loop env lookup (t # ts) =
     (case merge_task env lookup t of
        Inl e \<Rightarrow> Inl e
      | Inr t' \<Rightarrow>
          (case merge_loop env lookup ts of
             Inl e \<Rightarrow> Inl e
           | Inr ts' \<Rightarrow> Inr (t' # ts')))"

text \<open>The two loops of \<^verbatim>\<open>merge_exported\<close>, on the decoded export.\<close>

definition merge_with :: "env \<Rightarrow> json \<Rightarrow> task list \<Rightarrow> error + task list" where
  "merge_with env export tasks =
     (case json_iter export of
        Inl e \<Rightarrow> Inl e
      | Inr ems \<Rightarrow>
          (case build_lookup ems Map.empty of
             Inl e \<Rightarrow> Inl e
           | Inr lookup \<Rightarrow> merge_loop env lookup tasks))"

definition merge_exported :: "env \<Rightarrow> task list \<Rightarrow> world \<Rightarrow> (error + task list) \<times> world" where
  "merge_exported env tasks w =
     (case run_command env [''task'', ''rc.json.array=1'', ''export''] w of
        (Inl e, w') \<Rightarrow> (Inl e, w')
      | (Inr out, w') \<Rightarrow>
          (case json_loads env out of
             None \<Rightarrow> (Inl (ValueError ''No JSON object could be decoded''), w')
           | Some export \<Rightarrow> (merge_with env export tasks, w')))"

text \<open>\<^verbatim>\<open>Tasks.load_data\<close>.  A missing file gives the empty dictionary, which adds
  nothing to \<^verbatim>\<open>self.tasks\<close>: the empty list here.\<close>

definition load_data :: "env \<Rightarrow> string \<Rightarrow> world \<Rightarrow> (error + task list) \<times> world" where
  "load_data env database w =
     (if \<not> os_path_exists w database then (Inr [], w)
      else (case read_file w database of
              Inl e \<Rightarrow> (Inl e, w)
            | Inr raw_data \<Rightarrow>
                (case parse_lines env database (split_on CHR 0x0A (rstrip raw_data)) of
                   Inl e \<Rightarrow> (Inl e, w)
                 | Inr tasks \<Rightarrow> merge_exported env tasks w)))"

text \<open>\<^verbatim>\<open>Tasks.__init__\<close>: the pending file, then the completed file.\<close>

definition Tasks_init :: "env \<Rightarrow> world \<Rightarrow> (error + task list) \<times> world" where
  "Tasks_init env w =
     (case get_database_folder env w of
        (Inl e, w1) \<Rightarrow> (Inl e, w1)
      | (Inr database_folder, w1) \<Rightarrow>
          (case load_data env (os_path_join database_folder ''pending.data'') w1 of
             (Inl e, w2) \<Rightarrow> (Inl e, w2)
           | (Inr pending, w2) \<Rightarrow>
               (case load_data env (os_path_join database_folder ''completed.data'') w2 of
                  (Inl e, w3) \<Rightarrow> (Inl e, w3)
                | (Inr completed, w3) \<Rightarrow> (Inr (pending @ completed), w3))))"

section \<open>Database\<close>

record database =
  filename :: string
  mtime :: "real option"
  tasks_cache :: "task list option"

definition get_filename :: "env \<Rightarrow> world \<Rightarrow> (error + string) \<times> world" where
  "get_filename env w =
     (case run_command env [''task'', ''_show''] w of
        (Inl e, w') \<Rightarrow> (Inl e, w')
      | (Inr out, w') \<Rightarrow>
          (case find (\<lambda>line. startswith line ''data.location='') (split_on CHR 0x0A out) of
             Some line \<Rightarrow>
               (Inr (os_path_join (strip (snd (split_first CHR ''='' line))) ''pending.data''), w')
           | None \<Rightarrow> (Inl (RuntimeError ''Could not find task database location.''), w')))"

definition Database_init :: "env \<Rightarrow> world \<Rightarrow> (error + database) \<times> world" where
  "Database_init env w =
     (case get_filename env w of
        (Inl e, w') \<Rightarrow> (Inl e, w')
      | (Inr fn, w') \<Rightarrow> (Inr \<lparr>filename = fn, mtime = None, tasks_cache = None\<rparr>, w'))"

text \<open>\<^verbatim>\<open>os.stat(self.filename).st_mtime > ts\<close>; \<^verbatim>\<open>os.stat\<close> raises \<^verbatim>\<open>OSError\<close>
  on a path that does not exist.\<close>

definition modified_since :: "database \<Rightarrow> real \<Rightarrow> world \<Rightarrow> error + bool" where
  "modified_since db ts w =
     (case fs w (filename db) of
        None \<Rightarrow> Inl OSError
      | Some n \<Rightarrow> Inr (node_mtime n > ts))"

definition load_tasks :: "env \<Rightarrow> world \<Rightarrow> (error + task list) \<times> world" where
  "load_tasks env w = Tasks_init env w"

definition get_tasks :: "env \<Rightarrow> database \<Rightarrow> world \<Rightarrow> (error + task list) \<times> database \<times> world" where
  "get_tasks env db w =
     (case tasks_cache db of
        None \<Rightarrow>
          (case load_tasks env w of
             (Inl e, w') \<Rightarrow> (Inl e, db, w')
           | (Inr ts, w') \<Rightarrow> (Inr ts, db\<lparr>tasks_cache := Some ts\<rparr>, w'))
      | Some ts \<Rightarrow> (Inr ts, db, w))"

definition refresh :: "env \<Rightarrow> database \<Rightarrow> world \<Rightarrow> (error + task list) \<times> database \<times> world" where
  "refresh env db w = get_tasks env (db\<lparr>tasks_cache := None\<rparr>) w"

definition start_task :: "env \<Rightarrow> database \<Rightarrow> string \<Rightarrow> world \<Rightarrow> (error + unit) \<times> database \<times> world" where
  "start_task env db task_id w =
     (case run_command env [''task'', task_id, ''start''] w of
        (Inl e, w') \<Rightarrow> (Inl e, db, w')
      | (Inr out, w') \<Rightarrow> (Inr (), db, w'))"

definition stop_task :: "env \<Rightarrow> database \<Rightarrow> string \<Rightarrow> world \<Rightarrow> (error + unit) \<times> database \<times> world" where
  "stop_task env db task_id w =
     (case run_command env [''task'', task_id, ''stop''] w of
        (Inl e, w') \<Rightarrow> (Inl e, db, w')
      | (Inr out, w') \<Rightarrow> (Inr (), db, w'))"

definition finish_task :: "env \<Rightarrow> database \<Rightarrow> string \<Rightarrow> world \<Rightarrow> (error + unit) \<times> database \<times> world" where
  "finish_task env db task_id w =
     (case run_command env [''task'', task_id, ''stop''] w of
        (Inl e, w1) \<Rightarrow> (Inl e, db, w1)
      | (Inr out1, w1) \<Rightarrow>
          (case run_command env [''task'', task_id, ''done''] w1 of
             (Inl e, w2) \<Rightarrow> (Inl e, db, w2)
           | (Inr out2, w2) \<Rightarrow> (Inr (), db, w2)))"

definition restart_task :: "env \<Rightarrow> database \<Rightarrow> string \<Rightarrow> world \<Rightarrow> (error + unit) \<times> database \<times> world" where
  "restart_task env db task_id w =
     (case run_command env [''task'', task_id, ''mod'', ''status:pending''] w of
        (Inl e, w1) \<Rightarrow> (Inl e, db, w1)
      | (Inr out1, w1) \<Rightarrow>
          (case run_command env [''task'', task_id, ''start''] w1 of
             (Inl e, w2) \<Rightarrow> (Inl e, db, w2)
           | (Inr out2, w2) \<Rightarrow> (Inr (), db, w2)))"

text \<open>
  An item of the \<^verbatim>\<open>properties\<close> dictionary of \<^verbatim>\<open>update_task\<close> and
  \<^verbatim>\<open>add_task\<close>: the key \<^verbatim>\<open>tags\<close> with a list of texts, or a key with one text.
  The dictionary is the list of its items in the order \<^verbatim>\<open>properties.items()\<close>
  yields them.
\<close>

datatype property = Tags "string list" | Field string string

text \<open>\<^verbatim>\<open>for tag in v: if tag.strip(): command.append(tag)\<close>; a text is iterated
  character by character.\<close>

definition tag_args :: "string list \<Rightarrow> string list" where
  "tag_args v = filter (\<lambda>tag. strip tag \<noteq> []) v"

definition chars_of :: "string \<Rightarrow> string list" where
  "chars_of v = map (\<lambda>c. [c]) v"

text \<open>The loop of \<^verbatim>\<open>update_task\<close>; \<^verbatim>\<open>util.run_command(command)\<close> is its last
  statement, inside the loop.\<close>

fun update_loop :: "env \<Rightarrow> string \<Rightarrow> property list \<Rightarrow> string list \<Rightarrow> world \<Rightarrow> (error + unit) \<times> world" where
  "update_loop env task_id [] command w = (Inr (), w)"
| "update_loop env task_id (Tags v # ps) command w =
     (case run_command env (command @ tag_args v) w of
        (Inl e, w') \<Rightarrow> (Inl e, w')
      | (Inr out, w') \<Rightarrow> update_loop env task_id ps (command @ tag_args v) w')"
| "update_loop env task_id (Field k v # ps) command w =
     (if k = ''uuid'' then update_loop env task_id ps command w
      else if k = ''tags'' then
        (case run_command env (command @ tag_args (chars_of v)) w of
           (Inl e, w') \<Rightarrow> (Inl e, w')
         | (Inr out, w') \<Rightarrow> update_loop env task_id ps (command @ tag_args (chars_of v)) w')
      else if k = ''description'' then
        (case run_command env (command @ [v]) w of
           (Inl e, w') \<Rightarrow> (Inl e, w')
         | (Inr out, w') \<Rightarrow> update_loop env task_id ps (command @ [v]) w')
      else if k = ''note'' then
        (case set_note env [''uuid'' \<mapsto> PStr task_id] (NoteStr v) w of
           (Inl e, w1) \<Rightarrow> (Inl e, w1)
         | (Inr u, w1) \<Rightarrow>
             (case run_command env command w1 of
                (Inl e, w') \<Rightarrow> (Inl e, w')
              | (Inr out, w') \<Rightarrow> update_loop env task_id ps command w'))
      else
        (case run_command env (command @ [k @ '':'' @ v]) w of
           (Inl e, w') \<Rightarrow> (Inl e, w')
         | (Inr out, w') \<Rightarrow> update_loop env task_id ps (command @ [k @ '':'' @ v]) w'))"

definition update_task :: "env \<Rightarrow> database \<Rightarrow> string \<Rightarrow> property list \<Rightarrow> world \<Rightarrow> (error + unit) \<times> database \<times> world" where
  "update_task env db task_id properties w =
     (case update_loop env task_id properties [''task'', task_id, ''mod''] w of
        (r, w') \<Rightarrow> (r, db, w'))"

text \<open>
  \<^verbatim>\<open>re.findall("Created task (\d+)", output)\<close>, as far as \<^verbatim>\<open>add_task\<close> reads
  it: the loop over the matches returns in its first turn, so only the first
  match counts.  \<open>None\<close> is the empty list of matches.
\<close>

fun findall_first :: "string \<Rightarrow> string option" where
  "findall_first [] = None"
| "findall_first (c # cs) =
     (if startswith (c # cs) ''Created task '' \<and> takeWhile is_digit (drop 13 (c # cs)) \<noteq> []
      then Some (takeWhile is_digit (drop 13 (c # cs)))
      else findall_first cs)"

text \<open>What follows \<^verbatim>\<open>output = util.run_command(command)\<close> in a turn of the loop
  of \<^verbatim>\<open>add_task\<close>: \<open>Some r\<close> when the function returns \<open>r\<close> there, \<open>None\<close>
  when the loop goes on.\<close>

definition resolve_created :: "env \<Rightarrow> string \<Rightarrow> world \<Rightarrow> ((error + string option) \<times> world) option" where
  "resolve_created env output w =
     (case findall_first output of
        None \<Rightarrow> None
      | Some taskno \<Rightarrow>
          (case run_command env [''task'', taskno, ''uuid''] w of
             (Inl e, w') \<Rightarrow> Some (Inl e, w')
           | (Inr out, w') \<Rightarrow> Some (Inr (Some (strip out)), w')))"

text \<open>The loop of \<^verbatim>\<open>add_task\<close>; falling off its end returns \<^verbatim>\<open>None\<close>.\<close>

fun add_loop :: "env \<Rightarrow> property list \<Rightarrow> string list \<Rightarrow> world \<Rightarrow> (error + string option) \<times> world" where
  "add_loop env [] command w = (Inr None, w)"
| "add_loop env (Tags v # ps) command w =
     (case run_command env (command @ tag_args v) w of
        (Inl e, w') \<Rightarrow> (Inl e, w')
      | (Inr output, w') \<Rightarrow>
          (case resolve_created env output w' of
             Some r \<Rightarrow> r
           | None \<Rightarrow> add_loop env ps (command @ tag_args v) w'))"
| "add_loop env (Field k v # ps) command w =
     (if k = ''uuid'' then add_loop env ps command w
      else if k = ''tags'' then
        (case run_command env (command @ tag_args (chars_of v)) w of
           (Inl e, w') \<Rightarrow> (Inl e, w')
         | (Inr output, w') \<Rightarrow>
             (case resolve_created env output w' of
                Some r \<Rightarrow> r
              | None \<Rightarrow> add_loop env ps (command @ tag_args (chars_of v)) w'))
      else if k = ''description'' then
        (case run_command env (command @ [v]) w of
           (Inl e, w') \<Rightarrow> (Inl e, w')
         | (Inr output, w') \<Rightarrow>
             (case resolve_created env output w' of
                Some r \<Rightarrow> r
              | None \<Rightarrow> add_loop env ps (command @ [v]) w'))
      else
        (case run_command env (command @ [k @ '':'' @ v]) w of
           (Inl e, w') \<Rightarrow> (Inl e, w')
         | (Inr output, w') \<Rightarrow>
             (case resolve_created env output w' of
                Some r \<Rightarrow> r
              | None \<Rightarrow> add_loop env ps (command @ [k @ '':'' @ v]) w')))"

definition add_task :: "env \<Rightarrow> database \<Rightarrow> property list \<Rightarrow> world \<Rightarrow> (error + string option) \<times> database \<times> world" where
  "add_task env db properties w =
     (case add_loop env properties [''task'', ''add''] w of
        (r, w') \<Rightarrow> (r, db, w'))"

section \<open>A tokenizer and a codec to run the parser on\<close>

text \<open>
  \<^verbatim>\<open>shlex.split(s)\<close> of the Python 2.7 library: POSIX mode, words split at
  white space only, no comment characters.  \<open>Blank\<close> is the state between
  words, \<open>Word\<close> the state inside one; \<open>token\<close> is the word read so far and
  \<open>quoted\<close> says that a quote has been seen in it.
\<close>

datatype lexstate = Blank | Word | InQuote char | EscapeInWord | EscapeInQuote char

definition lex_whitespace :: "char \<Rightarrow> bool" where
  "lex_whitespace c = (c \<in> {CHR '' '', CHR 0x09, CHR 0x0D, CHR 0x0A})"

definition lex_quote :: "char \<Rightarrow> bool" where
  "lex_quote c = (c = CHR 0x27 \<or> c = CHR 0x22)"

definition emit :: "string \<Rightarrow> error + string list \<Rightarrow> error + string list" where
  "emit tok rest = (case rest of Inl e \<Rightarrow> Inl e | Inr ts \<Rightarrow> Inr (tok # ts))"

fun shlex_run :: "lexstate \<Rightarrow> string \<Rightarrow> bool \<Rightarrow> string \<Rightarrow> error + string list" where
  "shlex_run Blank token quoted [] = Inr []"
| "shlex_run Word token quoted [] = (if token = [] \<and> \<not> quoted then Inr [] else Inr [token])"
| "shlex_run (InQuote q) token quoted [] = Inl (ValueError ''No closing quotation'')"
| "shlex_run EscapeInWord token quoted [] = Inl (ValueError ''No escaped character'')"
| "shlex_run (EscapeInQuote q) token quoted [] = Inl (ValueError ''No escaped character'')"
| "shlex_run Blank token quoted (c # cs) =
     (if lex_whitespace c then shlex_run Blank token quoted cs
      else if c = CHR 0x5C then shlex_run EscapeInWord token quoted cs
      else if lex_quote c then shlex_run (InQuote c) token quoted cs
      else shlex_run Word [c] quoted cs)"
| "shlex_run (InQuote q) token quoted (c # cs) =
     (if c = q then shlex_run Word token True cs
      else if c = CHR 0x5C \<and> q = CHR 0x22 then shlex_run (EscapeInQuote q) token True cs
      else shlex_run (InQuote q) (token @ [c]) True cs)"
| "shlex_run EscapeInWord token quoted (c # cs) = shlex_run Word (token @ [c]) quoted cs"
| "shlex_run (EscapeInQuote q) token quoted (c # cs) =
     (if c \<noteq> CHR 0x5C \<and> c \<noteq> q
      then shlex_run (InQuote q) (token @ [CHR 0x5C, c]) quoted cs
      else shlex_run (InQuote q) (token @ [c]) quoted cs)"
| "shlex_run Word token quoted (c # cs) =
     (if lex_whitespace c then
        (if token \<noteq> [] \<or> quoted then emit token (shlex_run Blank [] False cs)
         else shlex_run Blank token quoted cs)
      else if lex_quote c then shlex_run (InQuote c) token quoted cs
      else if c = CHR 0x5C then shlex_run EscapeInWord token quoted cs
      else shlex_run Word (token @ [c]) quoted cs)"

definition shlex_posix :: "string \<Rightarrow> error + string list" where
  "shlex_posix s = shlex_run Blank [] False s"

text \<open>The UTF-8 codec on ASCII text, where it changes nothing; bytes above 127
  are refused.\<close>

definition ascii_decode :: "string \<Rightarrow> string option" where
  "ascii_decode s = (if list_all (\<lambda>c. (of_char c :: nat) < 128) s then Some s else None)"


text \<open>
  An environment to run the module in: \<open>runner\<close> plays the external tool, the
  export it prints decodes to \<open>export\<close>, lines are tokenized by
  \<open>shlex_posix\<close> and text is ASCII.
\<close>

definition plain_env :: "(string list list \<Rightarrow> string list \<Rightarrow> string option) \<Rightarrow> json \<Rightarrow> env" where
  "plain_env runner export =
     \<lparr>tool = runner, shlex_split = shlex_posix, utf8_decode = ascii_decode,
      utf8_encode = (\<lambda>s. s), json_loads = (\<lambda>s. Some export),
      float_of_text = (\<lambda>s. None)\<rparr>"

text \<open>A stand-in for the external tool: it reports its data folder, creates task
  42 on every \<^verbatim>\<open>add\<close>, resolves 42 to a uuid, and prints nothing otherwise.\<close>

definition stub_tool :: "string list list \<Rightarrow> string list \<Rightarrow> string option" where
  "stub_tool history command =
     (if command = [''task'', ''_show'']
      then Some (''verbose=on'' @ [CHR 0x0A] @ ''data.location=/home/u/.task'' @ [CHR 0x0A])
      else if take 2 command = [''task'', ''add''] then Some (''Created task 42.'' @ [CHR 0x0A])
      else if command = [''task'', ''42'', ''uuid'']
      then Some (''6f1c2a9e-0000-4000-8000-000000000042'' @ [CHR 0x0A])
      else Some [])"

definition empty_world :: world where
  "empty_world = \<lparr>fs = Map.empty, clock = 0, issued = []\<rparr>"

definition sample_db :: database where
  "sample_db =
     \<lparr>filename = ''/home/u/.task/pending.data'', mtime = None,
      tasks_cache = Some [[''uuid'' \<mapsto> PStr ''u1'']]\<rparr>"


definition sample_export :: json where
  "sample_export = JArr [JObj [(''uuid'', JStr ''u1''), (''urgency'', JFloat 4.5)]]"


text \<open>A record whose \<open>uuid\<close> can be looked up in a dictionary: anything but a
  list.  The parser stores a list under \<open>tags\<close> only.\<close>

definition hashable_uuid :: "task \<Rightarrow> bool" where
  "hashable_uuid t = (case t ''uuid'' of Some (PList l) \<Rightarrow> False | _ \<Rightarrow> True)"







section \<open>Properties of the task entity\<close>

lemma is_digit_digit_char: "d < 10 \<Longrightarrow> is_digit (digit_char d)"
  by (simp add: is_digit_def digit_char_def)

lemma of_char_digit_char: "d < 10 \<Longrightarrow> (of_char (digit_char d) :: nat) = 48 + d"
  by (simp add: digit_char_def)

lemma decimal_digits: "list_all is_digit (decimal n)"
proof (induction n rule: decimal.induct)
  case (1 n)
  show ?case
  proof (cases "n < 10")
    case True
    then show ?thesis by (simp add: is_digit_digit_char)
  next
    case False
    with 1 have "list_all is_digit (decimal (n div 10))" by simp
    moreover have "is_digit (digit_char (n mod 10))" by (simp add: is_digit_digit_char)
    ultimately show ?thesis using False by (subst decimal.simps) simp
  qed
qed

lemma digits_value_snoc: "digits_value (s @ [c]) = 10 * digits_value s + (of_char c - 48)"
  by (simp add: digits_value_def)

lemma digits_value_decimal: "digits_value (decimal n) = n"
proof (induction n rule: decimal.induct)
  case (1 n)
  show ?case
  proof (cases "n < 10")
    case True
    then show ?thesis by (simp add: digits_value_def of_char_digit_char)
  next
    case False
    with 1 have "digits_value (decimal (n div 10)) = n div 10" by simp
    then show ?thesis using False
      by (subst decimal.simps) (simp add: digits_value_snoc of_char_digit_char)
  qed
qed

lemma decimal_nonempty: "decimal n \<noteq> []"
  by (subst decimal.simps) simp

lemma decimal_length1: "n < 10 \<Longrightarrow> length (decimal n) = 1"
  by (subst decimal.simps) simp

lemma decimal_length2: "10 \<le> n \<Longrightarrow> n < 100 \<Longrightarrow> length (decimal n) = 2"
  by (subst decimal.simps) simp

lemma decimal_no_leading_zero: "10 \<le> n \<Longrightarrow> hd (decimal n) \<noteq> CHR ''0''"
proof (induction n rule: decimal.induct)
  case (1 n)
  show ?case
  proof (cases "n div 10 < 10")
    case True
    have "0 < n div 10" using 1(2) by simp
    then have "(of_char (digit_char (n div 10)) :: nat) \<noteq> of_char CHR ''0''" using True
      by (simp add: of_char_digit_char)
    then have "digit_char (n div 10) \<noteq> CHR ''0''" by auto
    then show ?thesis using 1(2) True by (subst decimal.simps) simp
  next
    case False
    then have "hd (decimal (n div 10)) \<noteq> CHR ''0''" using 1 by simp
    then show ?thesis using 1(2) by (subst decimal.simps) (simp add: decimal_nonempty)
  qed
qed

lemma fmt_u_unpadded: "length (fmt_u n) = 1 \<or> hd (fmt_u n) \<noteq> CHR ''0''"
  unfolding fmt_u_def
  by (cases "nat n < 10") (simp_all add: decimal_length1 decimal_no_leading_zero del: decimal.simps)

lemma fmt_u_value: "0 \<le> n \<Longrightarrow> int (digits_value (fmt_u n)) = n"
  by (simp add: fmt_u_def digits_value_decimal del: decimal.simps)

lemma fmt_02u_length: "0 \<le> n \<Longrightarrow> n < 100 \<Longrightarrow> length (fmt_02u n) = 2"
  unfolding fmt_02u_def
  by (cases "nat n < 10") (simp_all add: decimal_length1 decimal_length2 del: decimal.simps)

lemma digits_value_zeros: "digits_value (replicate k CHR ''0'' @ s) = digits_value s"
  by (induction k) (simp_all add: digits_value_def)

lemma fmt_02u_value: "0 \<le> n \<Longrightarrow> int (digits_value (fmt_02u n)) = n"
  by (simp add: fmt_02u_def digits_value_zeros digits_value_decimal del: decimal.simps)

lemma is_digit_zeros: "list_all is_digit (replicate k CHR ''0'')"
  by (induction k) (simp_all add: is_digit_def)

lemma fmt_02u_digits: "list_all is_digit (fmt_02u n)"
  by (simp add: fmt_02u_def decimal_digits is_digit_zeros del: decimal.simps)

lemma format_duration_fields:
  "\<exists>h m s. format_duration d = h @ '':'' @ m @ '':'' @ s
     \<and> list_all is_digit h \<and> (length h = 1 \<or> hd h \<noteq> CHR ''0'')
     \<and> int (digits_value h) = (d div 3600) mod 60
     \<and> length m = 2 \<and> list_all is_digit m \<and> int (digits_value m) = (d div 60) mod 60
     \<and> length s = 2 \<and> list_all is_digit s \<and> int (digits_value s) = d mod 60"
proof -
  let ?h = "fmt_u ((d div 3600) mod 60)"
  let ?m = "fmt_02u ((d div 60) mod 60)"
  let ?s = "fmt_02u (d mod 60)"
  have "format_duration d = ?h @ '':'' @ ?m @ '':'' @ ?s"
    by (simp add: format_duration_def Let_def)
  moreover have "list_all is_digit ?h"
    by (simp add: fmt_u_def decimal_digits del: decimal.simps)
  moreover have "length ?h = 1 \<or> hd ?h \<noteq> CHR ''0''" by (rule fmt_u_unpadded)
  moreover have "int (digits_value ?h) = (d div 3600) mod 60" by (simp add: fmt_u_value)
  moreover have "length ?m = 2" by (simp add: fmt_02u_length)
  moreover have "list_all is_digit ?m" by (rule fmt_02u_digits)
  moreover have "int (digits_value ?m) = (d div 60) mod 60" by (simp add: fmt_02u_value)
  moreover have "length ?s = 2" by (simp add: fmt_02u_length)
  moreover have "list_all is_digit ?s" by (rule fmt_02u_digits)
  moreover have "int (digits_value ?s) = d mod 60" by (simp add: fmt_02u_value)
  ultimately show ?thesis by blast
qed

text \<open>
  C4.  Whenever the current runtime of a task is \<open>d\<close> seconds, the formatted
  runtime is \<open>H:MM:SS\<close>: \<open>H\<close> is a decimal numeral without padding whose
  value is \<open>(d div 3600) mod 60\<close> (the hours wrap at 60), \<open>MM\<close> is two
  digits with value \<open>(d div 60) mod 60\<close> and \<open>SS\<close> two digits with value
  \<open>d mod 60\<close>.  125 seconds give \<open>0:02:05\<close>, 3725 seconds give \<open>1:02:05\<close>,
  and a task without a \<open>start\<close> has runtime zero.
\<close>

theorem format_current_runtime_hms:
  "(get_current_runtime t now = Inr d \<longrightarrow>
      (\<exists>h m s. format_current_runtime t now = Inr (h @ '':'' @ m @ '':'' @ s)
         \<and> list_all is_digit h \<and> (length h = 1 \<or> hd h \<noteq> CHR ''0'')
         \<and> int (digits_value h) = (d div 3600) mod 60
         \<and> length m = 2 \<and> list_all is_digit m \<and> int (digits_value m) = (d div 60) mod 60
         \<and> length s = 2 \<and> list_all is_digit s \<and> int (digits_value s) = d mod 60))
   \<and> (get_current_runtime t now = Inr 125 \<longrightarrow> format_current_runtime t now = Inr ''0:02:05'')
   \<and> (get_current_runtime t now = Inr 3725 \<longrightarrow> format_current_runtime t now = Inr ''1:02:05'')
   \<and> (t0 ''start'' = None \<longrightarrow> get_current_runtime t0 now = Inr 0 \<and> \<not> is_active t0)"
proof -
  have a: "format_duration 125 = ''0:02:05''" by code_simp
  have b: "format_duration 3725 = ''1:02:05''" by code_simp
  show ?thesis
    using format_duration_fields [of d] a b
    by (auto simp: format_current_runtime_def get_current_runtime_def is_active_def)
qed

theorem format_current_runtime_hms_witness:
  "get_current_runtime [''start'' \<mapsto> PStr ''1000''] 4725.5 = Inr 3725
   \<and> format_current_runtime [''start'' \<mapsto> PStr ''1000''] 4725.5 = Inr ''1:02:05''
   \<and> (Map.empty :: task) ''start'' = None
   \<and> get_current_runtime Map.empty 4725.5 = Inr 0"
proof -
  have r: "get_current_runtime [''start'' \<mapsto> PStr ''1000''] 4725.5 = Inr 3725"
    by (simp add: get_current_runtime_def getitem_def int_of_text_def strip_def lstrip_def
        rstrip_def isspace_def is_digit_def digits_value_def py_trunc_def Let_def)
  show ?thesis
    using r format_current_runtime_hms [of "[''start'' \<mapsto> PStr ''1000'']" "4725.5" 3725 Map.empty]
    by simp
qed

text \<open>
  C9.  Reading a field of a task record never fails: \<open>getitem\<close> is a total
  function into values.  An absent \<open>tags\<close> reads as the empty sequence, any
  other absent field as \<open>PNone\<close>, and a field that is present as its value.
\<close>

theorem getitem_never_fails:
  "(t ''tags'' = None \<longrightarrow> getitem t ''tags'' = PList [])
   \<and> (key \<noteq> ''tags'' \<and> t key = None \<longrightarrow> getitem t key = PNone)
   \<and> (t key' = Some v \<longrightarrow> getitem t key' = v)"
  by (simp add: getitem_def)

theorem getitem_never_fails_witness:
  "[''uuid'' \<mapsto> PStr ''u1''] ''tags'' = None
   \<and> getitem [''uuid'' \<mapsto> PStr ''u1''] ''tags'' = PList []
   \<and> ''project'' \<noteq> ''tags'' \<and> [''uuid'' \<mapsto> PStr ''u1''] ''project'' = None
   \<and> getitem [''uuid'' \<mapsto> PStr ''u1''] ''project'' = PNone
   \<and> [''uuid'' \<mapsto> PStr ''u1''] ''uuid'' = Some (PStr ''u1'')
   \<and> getitem [''uuid'' \<mapsto> PStr ''u1''] ''uuid'' = PStr ''u1''"
  using getitem_never_fails [of "[''uuid'' \<mapsto> PStr ''u1'']" "''project''" "''uuid''" "PStr ''u1''"]
  by simp

section \<open>Properties of the facade\<close>

text \<open>
  C10.  \<open>modified_since\<close> needs the pending data file: when the path exists
  the answer is whether its modification time is strictly greater than \<open>ts\<close>;
  when it is absent the call fails with the error of \<open>os.stat\<close>.  Loading the
  same absent file is no failure: it contributes no record.
\<close>

theorem modified_since_requires_file:
  "(fs w (filename db) = Some n \<longrightarrow> modified_since db ts w = Inr (ts < node_mtime n))
   \<and> (fs w0 (filename db) = None \<longrightarrow>
        modified_since db ts w0 = Inl OSError \<and> load_data env (filename db) w0 = (Inr [], w0))"
  by (simp add: modified_since_def load_data_def os_path_exists_def)

theorem modified_since_requires_file_witness:
  "fs (empty_world\<lparr>fs := [''/d/pending.data'' \<mapsto> RegularFile [] 50]\<rparr>) ''/d/pending.data''
      = Some (RegularFile [] 50)
   \<and> modified_since \<lparr>filename = ''/d/pending.data'', mtime = None, tasks_cache = None\<rparr> 49.5
        (empty_world\<lparr>fs := [''/d/pending.data'' \<mapsto> RegularFile [] 50]\<rparr>) = Inr True
   \<and> modified_since \<lparr>filename = ''/d/pending.data'', mtime = None, tasks_cache = None\<rparr> 50
        (empty_world\<lparr>fs := [''/d/pending.data'' \<mapsto> RegularFile [] 50]\<rparr>) = Inr False
   \<and> fs empty_world ''/d/pending.data'' = None
   \<and> modified_since \<lparr>filename = ''/d/pending.data'', mtime = None, tasks_cache = None\<rparr> 49.5
        empty_world = Inl OSError
   \<and> load_data (plain_env stub_tool (JArr [])) ''/d/pending.data'' empty_world = (Inr [], empty_world)"
  using modified_since_requires_file
    [of "empty_world\<lparr>fs := [''/d/pending.data'' \<mapsto> RegularFile [] 50]\<rparr>"
        "\<lparr>filename = ''/d/pending.data'', mtime = None, tasks_cache = None\<rparr>"
        "RegularFile [] 50" "49.5" empty_world "plain_env stub_tool (JArr [])"]
    modified_since_requires_file
    [of "empty_world\<lparr>fs := [''/d/pending.data'' \<mapsto> RegularFile [] 50]\<rparr>"
        "\<lparr>filename = ''/d/pending.data'', mtime = None, tasks_cache = None\<rparr>"
        "RegularFile [] 50" "50" empty_world "plain_env stub_tool (JArr [])"]
  by (simp add: empty_world_def)

section \<open>Evaluating the model\<close>



lemma plain_env_sel:
  "tool (plain_env r e) = r" "shlex_split (plain_env r e) = shlex_posix"
  "utf8_decode (plain_env r e) = ascii_decode" "utf8_encode (plain_env r e) = (\<lambda>s. s)"
  "json_loads (plain_env r e) = (\<lambda>s. Some e)" "float_of_text (plain_env r e) = (\<lambda>s. None)"
  by (simp_all add: plain_env_def)







section \<open>Properties of the parser\<close>
















section \<open>Malformed lines\<close>














section \<open>The cache and the mutations\<close>

lemma update_task_db: "fst (snd (update_task env db task_id properties w)) = db"
  by (simp add: update_task_def split: prod.splits)

lemma add_task_db: "fst (snd (add_task env db properties w)) = db"
  by (simp add: add_task_def split: prod.splits)

text \<open>
  C7, as the code has it.  No mutation touches the cache: after \<open>start\<close>,
  \<open>stop\<close>, \<open>finish\<close>, \<open>restart\<close>, \<open>update\<close> or \<open>add\<close> the facade is
  the one it was, whether the request succeeded or not.  So a loaded cache is
  what the next \<open>get_tasks\<close> returns, without a reload and without a request
  to the tool; only \<open>refresh\<close> empties the cache first.
\<close>

theorem mutations_keep_cache:
  "fst (snd (start_task env db task_id w)) = db
   \<and> fst (snd (stop_task env db task_id w)) = db
   \<and> fst (snd (finish_task env db task_id w)) = db
   \<and> fst (snd (restart_task env db task_id w)) = db
   \<and> fst (snd (update_task env db task_id properties w)) = db
   \<and> fst (snd (add_task env db properties w)) = db
   \<and> (tasks_cache db = Some ts \<longrightarrow> get_tasks env db w' = (Inr ts, db, w'))
   \<and> refresh env db w' = get_tasks env (db\<lparr>tasks_cache := None\<rparr>) w'"
  by (simp add: start_task_def stop_task_def finish_task_def restart_task_def
      update_task_db add_task_db get_tasks_def refresh_def split: prod.splits sum.splits)

lemma start_task_sample:
  "start_task (plain_env stub_tool sample_export) sample_db ''1'' empty_world
     = (Inr (), sample_db, empty_world\<lparr>issued := [[''task'', ''1'', ''start'']]\<rparr>)"
  by (simp add: start_task_def run_command_def plain_env_sel stub_tool_def empty_world_def)

theorem mutations_keep_cache_witness:
  "tasks_cache sample_db = Some [[''uuid'' \<mapsto> PStr ''u1'']]
   \<and> fst (snd (start_task (plain_env stub_tool sample_export) sample_db ''1'' empty_world))
       = sample_db
   \<and> get_tasks (plain_env stub_tool sample_export) sample_db
        (empty_world\<lparr>issued := [[''task'', ''1'', ''start'']]\<rparr>)
       = (Inr [[''uuid'' \<mapsto> PStr ''u1'']], sample_db,
          empty_world\<lparr>issued := [[''task'', ''1'', ''start'']]\<rparr>)"
proof -
  have c: "tasks_cache sample_db = Some [[''uuid'' \<mapsto> PStr ''u1'']]"
    by (simp add: sample_db_def)
  from mutations_keep_cache [of "plain_env stub_tool sample_export" sample_db "''1''" empty_world
      "[]" "[[''uuid'' \<mapsto> PStr ''u1'']]" "empty_world\<lparr>issued := [[''task'', ''1'', ''start'']]\<rparr>"] c
  show ?thesis by blast
qed

theorem mutation_invalidates_cache_counterexample:
  "start_task (plain_env stub_tool sample_export) sample_db ''1'' empty_world
     = (Inr (), sample_db, empty_world\<lparr>issued := [[''task'', ''1'', ''start'']]\<rparr>)
   \<and> tasks_cache sample_db \<noteq> None
   \<and> get_tasks (plain_env stub_tool sample_export) sample_db
        (empty_world\<lparr>issued := [[''task'', ''1'', ''start'']]\<rparr>)
       = (Inr [[''uuid'' \<mapsto> PStr ''u1'']], sample_db,
          empty_world\<lparr>issued := [[''task'', ''1'', ''start'']]\<rparr>)"
  by (simp add: start_task_sample) (simp add: get_tasks_def sample_db_def)

section \<open>Adding a task\<close>

lemma resolve_created_stub:
  "findall_first output = Some ''42'' \<Longrightarrow>
   resolve_created (plain_env stub_tool e) output w
     = Some (Inr (Some ''6f1c2a9e-0000-4000-8000-000000000042''),
             w\<lparr>issued := issued w @ [[''task'', ''42'', ''uuid'']]\<rparr>)"
  by (simp add: resolve_created_def run_command_def plain_env_sel stub_tool_def
      strip_def lstrip_def rstrip_def isspace_def)

text \<open>
  C6, on the code.  \<open>add_task\<close> sends the command inside its loop over the
  properties, and returns as soon as an answer reports a created task.  With
  the properties \<open>description: buy milk\<close> and \<open>tags: [home]\<close>, in either
  order of the dictionary, the one creation request carries the first property
  only; the second property is never sent.
\<close>

theorem add_task_sends_first_property_only:
  "add_task (plain_env stub_tool sample_export) sample_db
      [Tags [''home''], Field ''description'' ''buy milk''] empty_world
     = (Inr (Some ''6f1c2a9e-0000-4000-8000-000000000042''), sample_db,
        empty_world\<lparr>issued := [[''task'', ''add'', ''home''], [''task'', ''42'', ''uuid'']]\<rparr>)
   \<and> add_task (plain_env stub_tool sample_export) sample_db
      [Field ''description'' ''buy milk'', Tags [''home'']] empty_world
     = (Inr (Some ''6f1c2a9e-0000-4000-8000-000000000042''), sample_db,
        empty_world\<lparr>issued := [[''task'', ''add'', ''buy milk''], [''task'', ''42'', ''uuid'']]\<rparr>)"
proof -
  have tags: "tag_args [''home''] = [''home'']"
    by (simp add: tag_args_def strip_def lstrip_def rstrip_def isspace_def)
  have r1: "run_command (plain_env stub_tool sample_export) [''task'', ''add'', ''home''] empty_world
      = (Inr (''Created task 42.'' @ [CHR 0x0A]),
         empty_world\<lparr>issued := [[''task'', ''add'', ''home'']]\<rparr>)"
    by (simp add: run_command_def plain_env_sel stub_tool_def empty_world_def)
  have r2: "run_command (plain_env stub_tool sample_export) [''task'', ''add'', ''buy milk''] empty_world
      = (Inr (''Created task 42.'' @ [CHR 0x0A]),
         empty_world\<lparr>issued := [[''task'', ''add'', ''buy milk'']]\<rparr>)"
    by (simp add: run_command_def plain_env_sel stub_tool_def empty_world_def)
  have a: "add_loop (plain_env stub_tool sample_export)
      [Tags [''home''], Field ''description'' ''buy milk''] [''task'', ''add''] empty_world
     = (Inr (Some ''6f1c2a9e-0000-4000-8000-000000000042''),
        empty_world\<lparr>issued := [[''task'', ''add'', ''home''], [''task'', ''42'', ''uuid'']]\<rparr>)"
    by (simp add: tags r1 resolve_created_stub startswith_def is_digit_def)
  have b: "add_loop (plain_env stub_tool sample_export)
      [Field ''description'' ''buy milk'', Tags [''home'']] [''task'', ''add''] empty_world
     = (Inr (Some ''6f1c2a9e-0000-4000-8000-000000000042''),
        empty_world\<lparr>issued := [[''task'', ''add'', ''buy milk''], [''task'', ''42'', ''uuid'']]\<rparr>)"
    by (simp add: r2 resolve_created_stub startswith_def is_digit_def)
  show ?thesis unfolding add_task_def by (simp only: a b prod.case simp_thms)
qed

section \<open>Updating a task\<close>

lemma run_command_issued [simp]:
  "issued (snd (run_command env command w)) = issued w @ [command]"
  by (simp add: run_command_def split: option.splits)

lemma run_command_fs [simp]: "fs (snd (run_command env command w)) = fs w"
  by (simp add: run_command_def split: option.splits)

lemma run_command_clock [simp]: "clock (snd (run_command env command w)) = clock w"
  by (simp add: run_command_def split: option.splits)
















section \<open>Merging the export\<close>













lemma parse_tokens_hashable_uuid:
  "parse_tokens env kws t = Inr t' \<Longrightarrow> hashable_uuid t \<Longrightarrow> hashable_uuid t'"
  by (induction kws arbitrary: t)
     (auto simp: Let_def hashable_uuid_def split: if_splits option.splits)

lemma parse_lines_hashable_uuid:
  "parse_lines env database lines = Inr ts \<Longrightarrow> list_all hashable_uuid ts"
proof (induction lines arbitrary: ts)
  case Nil
  then show ?case by simp
next
  case (Cons line lines)
  from Cons.prems obtain t rest where
    t: "parse_line env database line = Inr t" and
    r: "parse_lines env database lines = Inr rest" and ts: "ts = t # rest"
    by (auto split: sum.splits)
  from t obtain kws where "parse_tokens env kws Map.empty = Inr t"
    by (auto simp: parse_line_def split: if_splits sum.splits)
  from parse_tokens_hashable_uuid [OF this] have "hashable_uuid t"
    by (simp add: hashable_uuid_def)
  with Cons.IH [OF r] ts show ?case by simp
qed


section \<open>The note store\<close>









end
